theory Spec2Isabelle
  imports Complex_Main "HOL-Library.Word"
begin

unbundle bit_operations_syntax

section \<open>Data model\<close>

text \<open>
  The source is \<^verbatim>\<open>dev_mode_consensus.py\<close>: the three DevMode consensus classes
  \<^verbatim>\<open>BlockPublisher\<close>, \<^verbatim>\<open>BlockVerifier\<close> and \<^verbatim>\<open>ForkResolver\<close>.

  A Python \<^verbatim>\<open>str\<close> is held as the sequence of bytes of its UTF-8 encoding, so that
  \<^verbatim>\<open>s.encode()\<close> is the identity on the representation and equality of strings is
  equality of the byte sequences. \<^verbatim>\<open>bytes\<close> values are byte sequences as well.
  Python integers are unbounded: \<open>int\<close>. A Python float is an IEEE double: the sample
  that \<^verbatim>\<open>random.uniform\<close> computes is modelled with the rounding, the overflow to
  infinity and the \<^verbatim>\<open>OverflowError\<close> of the double arithmetic (section "Python floats").
  Wall-clock times (\<^verbatim>\<open>time.time()\<close>) are finite floats, held as the real numbers they
  denote; the one addition \<^verbatim>\<open>check_publish_block\<close> makes to the start time is exact
  in the model.
\<close>

type_synonym str = string
type_synonym bytes = string

record block_header =
  consensus :: bytes
  signer_pubkey :: str
  previous_block_id :: str
  block_num :: nat
  state_root_hash :: str

text \<open>
  Modelled from the spec: the class \<^verbatim>\<open>BlockWrapper\<close> is not part of the source file.
  The spec's ForkHead is "the header of a chain tip", whose \<^verbatim>\<open>blockNumber\<close> and
  \<^verbatim>\<open>stateRootHash\<close> are fields of the header; the wrapper's attributes
  \<^verbatim>\<open>block_num\<close> and \<^verbatim>\<open>state_root_hash\<close> read them from the wrapped header.
\<close>

record block_wrapper =
  header :: block_header

definition wrapper_block_num :: "block_wrapper \<Rightarrow> nat" where
  "wrapper_block_num w = block_num (header w)"

definition wrapper_state_root_hash :: "block_wrapper \<Rightarrow> str" where
  "wrapper_state_root_hash w = state_root_hash (header w)"

text \<open>
  The host's block cache: only \<^verbatim>\<open>block_cache.block_store.chain_head\<close> is read, which
  is \<^verbatim>\<open>None\<close> before genesis.
\<close>

record block_cache =
  chain_head :: "block_wrapper option"

subsection \<open>Settings\<close>

text \<open>
  Modelled from the spec: \<^verbatim>\<open>ConfigView\<close> and the state view are not part of the source
  file. The spec gives the accessor as \<^verbatim>\<open>getSetting(key, default, type)\<close>, "tolerant of
  missing/malformed entries by returning default". A state view is a map from setting keys
  to stored values; an entry of the wrong type is a malformed one.
\<close>

datatype setting_value = Int_setting int | List_setting "str list"

type_synonym state_view = "string \<rightharpoonup> setting_value"

definition get_setting_int :: "state_view \<Rightarrow> string \<Rightarrow> int \<Rightarrow> int" where
  "get_setting_int view key default_value =
     (case view key of Some (Int_setting i) \<Rightarrow> i | _ \<Rightarrow> default_value)"

definition get_setting_list ::
  "state_view \<Rightarrow> string \<Rightarrow> str list option \<Rightarrow> str list option" where
  "get_setting_list view key default_value =
     (case view key of Some (List_setting l) \<Rightarrow> Some l | _ \<Rightarrow> default_value)"

section \<open>Python floats\<close>

text \<open>The exceptions the modelled code can raise.\<close>

datatype error = ValueError | OverflowError

text \<open>
  A float is a finite double, held as the real number it denotes, or one of the two
  infinities. (No operation modelled here produces a NaN.)
\<close>

datatype pyfloat = Finite real | PInf | NInf

text \<open>
  Rounding to the nearest double, ties to the double with the even significand (IEEE 754
  binary64, the only rounding mode Python uses). A real \<open>x\<close> whose magnitude lies
  between \<open>2 ^ e\<close> and \<open>2 ^ (e + 1)\<close> is rounded to a multiple of \<open>2 ^ (e - 52)\<close>;
  below \<open>2 ^ (- 1022)\<close> the spacing stays \<open>2 ^ (- 1074)\<close> (subnormal numbers); a result
  of magnitude \<open>2 ^ 1024\<close> or more is an overflow.
\<close>

definition round_half_even :: "real \<Rightarrow> int" where
  "round_half_even z =
     (let f = \<lfloor>z\<rfloor>; d = z - of_int f
      in if d < 1/2 then f else if d > 1/2 then f + 1 else if even f then f else f + 1)"

definition double_exponent :: "real \<Rightarrow> int" where
  "double_exponent x = max \<lfloor>log 2 \<bar>x\<bar>\<rfloor> (- 1022)"

definition double_ulp :: "real \<Rightarrow> real" where
  "double_ulp x = 2 powr real_of_int (double_exponent x - 52)"

definition nearest_multiple :: "real \<Rightarrow> real" where
  "nearest_multiple x = real_of_int (round_half_even (x / double_ulp x)) * double_ulp x"

definition double_limit :: real where
  "double_limit = 2 ^ 1024"

definition round_double :: "real \<Rightarrow> pyfloat" where
  "round_double x =
     (if x = 0 then Finite 0
      else if nearest_multiple x \<ge> double_limit then PInf
      else if nearest_multiple x \<le> - double_limit then NInf
      else Finite (nearest_multiple x))"

text \<open>The reals that are doubles: those that rounding leaves as they are.\<close>

definition is_double :: "real \<Rightarrow> bool" where
  "is_double x = (round_double x = Finite x)"

text \<open>
  The conversion of a Python \<^verbatim>\<open>int\<close> to a float, which every mixed operation
  \<^verbatim>\<open>int + float\<close> and \<^verbatim>\<open>int * float\<close> starts with: correctly rounded, and
  \<^verbatim>\<open>OverflowError\<close> ("int too large to convert to float") where the rounded value is
  out of range.
\<close>

definition int_to_float :: "int \<Rightarrow> error + real" where
  "int_to_float n =
     (case round_double (real_of_int n) of Finite y \<Rightarrow> Inr y | _ \<Rightarrow> Inl OverflowError)"

text \<open>
  The product and the sum of floats are the rounded exact results; an overflow gives an
  infinity and raises nothing. The second operand of the sum may be infinite.
\<close>

definition float_mul :: "real \<Rightarrow> real \<Rightarrow> pyfloat" where
  "float_mul x y = round_double (x * y)"

fun float_add :: "real \<Rightarrow> pyfloat \<Rightarrow> pyfloat" where
  "float_add x (Finite y) = round_double (x + y)"
| "float_add x PInf = PInf"
| "float_add x NInf = NInf"

section \<open>BlockPublisher\<close>

text \<open>
  The attributes of \<^verbatim>\<open>BlockPublisher\<close> (without the leading underscore of the Python
  names). \<^verbatim>\<open>_valid_block_publishers\<close> is \<^verbatim>\<open>None\<close> or a list.
  \<^verbatim>\<open>state_view_factory.create_view\<close> is the function from a state root hash to the
  state view.
\<close>

record block_publisher =
  block_cache :: block_cache
  state_view_factory :: "str \<Rightarrow> state_view"
  start_time :: real
  wait_time :: pyfloat
  min_wait_time :: int
  max_wait_time :: int
  valid_block_publishers :: "str list option"

text \<open>\<^verbatim>\<open>__init__\<close>: the timer and the three settings start at their defaults.\<close>

definition new_block_publisher :: "block_cache \<Rightarrow> (str \<Rightarrow> state_view) \<Rightarrow> block_publisher" where
  "new_block_publisher cache factory =
     \<lparr>block_cache = cache, state_view_factory = factory,
      start_time = 0, wait_time = Finite 0,
      min_wait_time = 0, max_wait_time = 0, valid_block_publishers = None\<rparr>"

text \<open>
  \<^verbatim>\<open>random.uniform(a, b)\<close> of the Python standard library is
  \<^verbatim>\<open>a + (b - a) * self.random()\<close>, where \<^verbatim>\<open>random()\<close> draws a float from
  \<open>[0, 1)\<close>; the drawn value is the parameter \<open>r\<close>. Both arguments are Python
  integers here, so \<^verbatim>\<open>b - a\<close> is exact; the product converts it to a float and the sum
  converts \<^verbatim>\<open>a\<close>, and either conversion can raise.
\<close>

definition uniform :: "int \<Rightarrow> int \<Rightarrow> real \<Rightarrow> error + pyfloat" where
  "uniform a b r =
     (case int_to_float (b - a) of
        Inl e \<Rightarrow> Inl e
      | Inr d \<Rightarrow>
          (let p = float_mul d r in
           case int_to_float a of
             Inl e \<Rightarrow> Inl e
           | Inr fa \<Rightarrow> Inr (float_add fa p)))"

text \<open>
  \<^verbatim>\<open>initialize_block\<close>. The arguments \<open>now\<close> and \<open>r\<close> are the values that
  \<^verbatim>\<open>time.time()\<close> and \<^verbatim>\<open>random.random()\<close> give during the call. The result is the
  publisher and the header as the call leaves them, and the outcome: \<open>Inr True\<close> for the
  returned value, or \<open>Inl OverflowError\<close> when \<^verbatim>\<open>random.uniform\<close> raises. The
  exception leaves the method after the three settings, the consensus tag and the start
  time have been assigned, so these assignments stay and the wait time keeps its previous
  value.
\<close>

definition initialize_block ::
  "block_publisher \<Rightarrow> block_header \<Rightarrow> real \<Rightarrow> real
     \<Rightarrow> block_publisher \<times> block_header \<times> (error + bool)" where
  "initialize_block self hdr now r =
     (let root = (case chain_head (block_cache self) of
                    Some h \<Rightarrow> wrapper_state_root_hash h
                  | None \<Rightarrow> state_root_hash hdr);
          state_view = state_view_factory self root;
          min_w = get_setting_int state_view ''sawtooth.consensus.min_wait_time''
                    (min_wait_time self);
          max_w = get_setting_int state_view ''sawtooth.consensus.max_wait_time''
                    (max_wait_time self);
          pubs = get_setting_list state_view ''sawtooth.consensus.valid_block_publishers''
                    (valid_block_publishers self);
          self1 = self\<lparr>min_wait_time := min_w, max_wait_time := max_w,
                        valid_block_publishers := pubs, start_time := now\<rparr>;
          hdr1 = hdr\<lparr>consensus := ''Devmode''\<rparr>
      in case uniform min_w max_w r of
           Inl e \<Rightarrow> (self1, hdr1, Inl e)
         | Inr w \<Rightarrow> (self1\<lparr>wait_time := w\<rparr>, hdr1, Inr True))"

text \<open>
  The first test of \<^verbatim>\<open>check_publish_block\<close>:
  \<^verbatim>\<open>self._valid_block_publishers and block_header.signer_pubkey not in self._valid_block_publishers\<close>.
  \<^verbatim>\<open>None\<close> and the empty list are both falsy.
\<close>

definition not_valid_publisher :: "str list option \<Rightarrow> str \<Rightarrow> bool" where
  "not_valid_publisher pubs signer =
     (case pubs of None \<Rightarrow> False | Some l \<Rightarrow> l \<noteq> [] \<and> signer \<notin> set l)"

text \<open>
  The test \<^verbatim>\<open>self._start_time + self._wait_time <= time.time()\<close>: an infinite wait
  time makes the sum infinite, and \<^verbatim>\<open>inf <= now\<close> is false, \<^verbatim>\<open>-inf <= now\<close> true.
\<close>

fun wait_is_over :: "real \<Rightarrow> pyfloat \<Rightarrow> real \<Rightarrow> bool" where
  "wait_is_over start (Finite w) now = (start + w \<le> now)"
| "wait_is_over start PInf now = False"
| "wait_is_over start NInf now = True"

text \<open>
  \<^verbatim>\<open>check_publish_block\<close>. \<open>now\<close> is the value of \<^verbatim>\<open>time.time()\<close> at the call.
  The result is \<open>Some b\<close> where the source executes \<^verbatim>\<open>return b\<close>, and \<open>None\<close>
  where the function body ends without a \<^verbatim>\<open>return\<close> statement (Python then
  returns \<^verbatim>\<open>None\<close>): the two inner \<^verbatim>\<open>if\<close> statements have no \<^verbatim>\<open>else\<close>.
\<close>

definition check_publish_block :: "block_publisher \<Rightarrow> block_header \<Rightarrow> real \<Rightarrow> bool option" where
  "check_publish_block self hdr now =
     (if not_valid_publisher (valid_block_publishers self) (signer_pubkey hdr) then Some False
      else if min_wait_time self = 0 then Some True
      else if min_wait_time self > 0 \<and> max_wait_time self \<le> 0 then
        (if start_time self + real_of_int (min_wait_time self) \<le> now then Some True else None)
      else if min_wait_time self > 0 \<and> max_wait_time self > min_wait_time self then
        (if wait_is_over (start_time self) (wait_time self) now then Some True else None)
      else Some False)"

definition finalize_block :: "block_publisher \<Rightarrow> block_header \<Rightarrow> bool" where
  "finalize_block self hdr = True"

section \<open>BlockVerifier\<close>

definition verify_block :: "block_wrapper \<Rightarrow> bool" where
  "verify_block w = (consensus (header w) = ''Devmode'')"

section \<open>ForkResolver\<close>

subsection \<open>MD5\<close>

text \<open>
  \<^verbatim>\<open>hashlib.md5\<close> is the MD5 algorithm of RFC 1321, on bytes and 32-bit words: the
  sine table, the shift amounts, the padding of the message to a multiple of 64 bytes
  with its length in bits, and the 64 steps per block.
\<close>

type_synonym u8 = "8 word"
type_synonym u32 = "32 word"
type_synonym u64 = "64 word"

definition md5_K :: "u32 list" where
  "md5_K = [
     0xd76aa478, 0xe8c7b756, 0x242070db, 0xc1bdceee,
     0xf57c0faf, 0x4787c62a, 0xa8304613, 0xfd469501,
     0x698098d8, 0x8b44f7af, 0xffff5bb1, 0x895cd7be,
     0x6b901122, 0xfd987193, 0xa679438e, 0x49b40821,
     0xf61e2562, 0xc040b340, 0x265e5a51, 0xe9b6c7aa,
     0xd62f105d, 0x02441453, 0xd8a1e681, 0xe7d3fbc8,
     0x21e1cde6, 0xc33707d6, 0xf4d50d87, 0x455a14ed,
     0xa9e3e905, 0xfcefa3f8, 0x676f02d9, 0x8d2a4c8a,
     0xfffa3942, 0x8771f681, 0x6d9d6122, 0xfde5380c,
     0xa4beea44, 0x4bdecfa9, 0xf6bb4b60, 0xbebfbc70,
     0x289b7ec6, 0xeaa127fa, 0xd4ef3085, 0x04881d05,
     0xd9d4d039, 0xe6db99e5, 0x1fa27cf8, 0xc4ac5665,
     0xf4292244, 0x432aff97, 0xab9423a7, 0xfc93a039,
     0x655b59c3, 0x8f0ccc92, 0xffeff47d, 0x85845dd1,
     0x6fa87e4f, 0xfe2ce6e0, 0xa3014314, 0x4e0811a1,
     0xf7537e82, 0xbd3af235, 0x2ad7d2bb, 0xeb86d391]"

definition md5_S :: "nat list" where
  "md5_S = [7, 12, 17, 22, 7, 12, 17, 22, 7, 12, 17, 22, 7, 12, 17, 22,
            5, 9, 14, 20, 5, 9, 14, 20, 5, 9, 14, 20, 5, 9, 14, 20,
            4, 11, 16, 23, 4, 11, 16, 23, 4, 11, 16, 23, 4, 11, 16, 23,
            6, 10, 15, 21, 6, 10, 15, 21, 6, 10, 15, 21, 6, 10, 15, 21]"

definition rotl32 :: "u32 \<Rightarrow> nat \<Rightarrow> u32" where
  "rotl32 x n = push_bit n x OR drop_bit (32 - n) x"

definition le_bytes64 :: "u64 \<Rightarrow> u8 list" where
  "le_bytes64 w = map (\<lambda>i. ucast (drop_bit (8 * i) w)) [0..<8]"

definition le_bytes32 :: "u32 \<Rightarrow> u8 list" where
  "le_bytes32 w = map (\<lambda>i. ucast (drop_bit (8 * i) w)) [0..<4]"

definition md5_pad :: "u8 list \<Rightarrow> u8 list" where
  "md5_pad msg =
     msg @ [0x80] @ replicate ((119 - length msg mod 64) mod 64) 0
         @ le_bytes64 (8 * word_of_nat (length msg))"

fun le_words :: "u8 list \<Rightarrow> u32 list" where
  "le_words (b0 # b1 # b2 # b3 # bs) =
     (ucast b0 OR push_bit 8 (ucast b1) OR push_bit 16 (ucast b2) OR push_bit 24 (ucast b3))
       # le_words bs"
| "le_words _ = []"

fun blocks64 :: "'a list \<Rightarrow> 'a list list" where
  "blocks64 [] = []"
| "blocks64 (x # xs) = take 64 (x # xs) # blocks64 (drop 63 xs)"

type_synonym md5_state = "u32 \<times> u32 \<times> u32 \<times> u32"

definition md5_step :: "u32 list \<Rightarrow> md5_state \<Rightarrow> nat \<Rightarrow> md5_state" where
  "md5_step M st i =
     (case st of (a, b, c, d) \<Rightarrow>
        let (f, g) =
              (if i < 16 then ((b AND c) OR (NOT b AND d), i)
               else if i < 32 then ((d AND b) OR (NOT d AND c), (5 * i + 1) mod 16)
               else if i < 48 then (b XOR c XOR d, (3 * i + 5) mod 16)
               else (c XOR (b OR NOT d), (7 * i) mod 16));
            f' = f + a + md5_K ! i + M ! g
        in (d, b + rotl32 f' (md5_S ! i), b, c))"

definition md5_block :: "md5_state \<Rightarrow> u8 list \<Rightarrow> md5_state" where
  "md5_block st blk =
     (case st of (a0, b0, c0, d0) \<Rightarrow>
        case foldl (md5_step (le_words blk)) st [0..<64] of (a, b, c, d) \<Rightarrow>
          (a0 + a, b0 + b, c0 + c, d0 + d))"

definition md5 :: "u8 list \<Rightarrow> u8 list" where
  "md5 msg =
     (case foldl md5_block (0x67452301, 0xefcdab89, 0x98badcfe, 0x10325476)
             (blocks64 (md5_pad msg)) of
        (a, b, c, d) \<Rightarrow> le_bytes32 a @ le_bytes32 b @ le_bytes32 c @ le_bytes32 d)"

text \<open>
  The hash object of \<^verbatim>\<open>hashlib\<close>: \<^verbatim>\<open>update\<close> appends to the message fed so far,
  \<^verbatim>\<open>hexdigest\<close> is the digest of the whole message as 32 lower-case hexadecimal digits.
\<close>

definition md5_new :: "u8 list" where
  "md5_new = []"

definition md5_update :: "u8 list \<Rightarrow> u8 list \<Rightarrow> u8 list" where
  "md5_update m data = m @ data"

definition hex_digit :: "u8 \<Rightarrow> char" where
  "hex_digit n = ''0123456789abcdef'' ! unat n"

definition hex_string :: "u8 list \<Rightarrow> string" where
  "hex_string bs = concat (map (\<lambda>b. [hex_digit (drop_bit 4 b), hex_digit (b AND 15)]) bs)"

definition md5_hexdigest :: "u8 list \<Rightarrow> string" where
  "md5_hexdigest m = hex_string (md5 m)"

text \<open>\<^verbatim>\<open>s.encode()\<close>: the bytes of the string, which is held in UTF-8.\<close>

definition encode :: "str \<Rightarrow> u8 list" where
  "encode s = map (\<lambda>c. word_of_nat (of_char c)) s"

subsection \<open>\<^verbatim>\<open>int(digest, 16)\<close>\<close>

text \<open>
  Python's \<^verbatim>\<open>int(s, 16)\<close> on a string of hexadecimal digits is its value in base 16, and
  raises \<^verbatim>\<open>ValueError\<close> on the empty string and on a character that is no digit. (It
  also accepts a sign, a \<^verbatim>\<open>0x\<close> prefix, underscores and surrounding white space; such
  strings are not modelled and are treated as an error here. \<^verbatim>\<open>hexdigest\<close> never
  produces one: see \<open>hash_signer_pubkey_total\<close>.)
\<close>

definition hex_value :: "char \<Rightarrow> int option" where
  "hex_value c =
     (let n = (of_char c :: nat) in
      if 48 \<le> n \<and> n \<le> 57 then Some (int n - 48)
      else if 97 \<le> n \<and> n \<le> 102 then Some (int n - 87)
      else if 65 \<le> n \<and> n \<le> 70 then Some (int n - 55)
      else None)"

fun int16_digits :: "int \<Rightarrow> string \<Rightarrow> error + int" where
  "int16_digits acc [] = Inr acc"
| "int16_digits acc (c # cs) =
     (case hex_value c of
        None \<Rightarrow> Inl ValueError
      | Some d \<Rightarrow> int16_digits (16 * acc + d) cs)"

definition python_int16 :: "string \<Rightarrow> error + int" where
  "python_int16 s = (if s = [] then Inl ValueError else int16_digits 0 s)"

subsection \<open>The resolver\<close>

definition hash_signer_pubkey :: "str \<Rightarrow> str \<Rightarrow> error + int" where
  "hash_signer_pubkey signer header_signature =
     (let m = md5_new;
          m = md5_update m (encode signer);
          m = md5_update m (encode header_signature);
          digest = md5_hexdigest m
      in python_int16 digest)"

text \<open>
  \<^verbatim>\<open>compare_forks\<close>: \<open>Inr True\<close> chooses the new fork head, \<open>Inr False\<close> the current
  one; an exception raised while hashing would leave the function.
\<close>

definition compare_forks :: "block_wrapper \<Rightarrow> block_wrapper \<Rightarrow> error + bool" where
  "compare_forks cur_fork_head new_fork_head =
     (if wrapper_block_num new_fork_head = wrapper_block_num cur_fork_head then
        (case hash_signer_pubkey (signer_pubkey (header cur_fork_head))
                (previous_block_id (header cur_fork_head)) of
           Inl e \<Rightarrow> Inl e
         | Inr cur_fork_hash \<Rightarrow>
             (case hash_signer_pubkey (signer_pubkey (header new_fork_head))
                     (previous_block_id (header new_fork_head)) of
                Inl e \<Rightarrow> Inl e
              | Inr new_fork_hash \<Rightarrow> Inr (new_fork_hash < cur_fork_hash)))
      else Inr (wrapper_block_num new_fork_head > wrapper_block_num cur_fork_head))"

section \<open>The publisher as a state machine\<close>

text \<open>
  The calls the host makes on one \<^verbatim>\<open>BlockPublisher\<close>, and the host's own update of the
  chain head in the shared block cache. \<^verbatim>\<open>check_publish_block\<close> and
  \<^verbatim>\<open>finalize_block\<close> assign no attribute, so they leave the publisher as it is.
\<close>

datatype call =
    Initialize_block block_header real real
  | Check_publish_block block_header real
  | Finalize_block block_header
  | Chain_head_changed "block_wrapper option"

fun step :: "block_publisher \<Rightarrow> call \<Rightarrow> block_publisher" where
  "step self (Initialize_block hdr now r) = fst (initialize_block self hdr now r)"
| "step self (Check_publish_block hdr now) = self"
| "step self (Finalize_block hdr) = self"
| "step self (Chain_head_changed h) = self\<lparr>block_cache := \<lparr>chain_head = h\<rparr>\<rparr>"

text \<open>\<^verbatim>\<open>random.random()\<close> draws from the half-open interval \<open>[0, 1)\<close>.\<close>

fun draw_ok :: "call \<Rightarrow> bool" where
  "draw_ok (Initialize_block hdr now r) = (0 \<le> r \<and> r < 1)"
| "draw_ok _ = True"

text \<open>
  The bound on the sampled wait time, for settings that doubles represent exactly.
\<close>

definition exact_settings :: "block_publisher \<Rightarrow> bool" where
  "exact_settings self =
     (is_double (real_of_int (min_wait_time self))
      \<and> is_double (real_of_int (max_wait_time self))
      \<and> is_double (real_of_int (max_wait_time self - min_wait_time self)))"

definition wait_time_bounded :: "block_publisher \<Rightarrow> bool" where
  "wait_time_bounded self =
     (max_wait_time self > min_wait_time self \<and> exact_settings self \<longrightarrow>
        (\<exists>w. wait_time self = Finite w
              \<and> real_of_int (min_wait_time self) \<le> w
              \<and> w \<le> real_of_int (max_wait_time self)))"

subsection \<open>Example inputs\<close>

definition settings_view :: "int option \<Rightarrow> int option \<Rightarrow> str list option \<Rightarrow> state_view" where
  "settings_view mn mx ps =
     (\<lambda>key. if key = ''sawtooth.consensus.min_wait_time'' then map_option Int_setting mn
            else if key = ''sawtooth.consensus.max_wait_time'' then map_option Int_setting mx
            else if key = ''sawtooth.consensus.valid_block_publishers''
              then map_option List_setting ps
            else None)"

definition example_publisher :: "int option \<Rightarrow> int option \<Rightarrow> str list option \<Rightarrow> block_publisher" where
  "example_publisher mn mx ps =
     new_block_publisher \<lparr>chain_head = None\<rparr> (\<lambda>root. settings_view mn mx ps)"

definition example_header :: block_header where
  "example_header =
     \<lparr>consensus = [], signer_pubkey = ''bob'', previous_block_id = ''00'',
      block_num = 1, state_root_hash = ''root''\<rparr>"

definition fork_head :: "str \<Rightarrow> str \<Rightarrow> nat \<Rightarrow> bytes \<Rightarrow> block_wrapper" where
  "fork_head signer previous num tag =
     \<lparr>header = \<lparr>consensus = tag, signer_pubkey = signer, previous_block_id = previous,
                 block_num = num, state_root_hash = ''root''\<rparr>\<rparr>"

section \<open>Properties of the rounding\<close>

text \<open>
  Rounding never crosses a double: a real between two doubles is rounded to a double
  between them (\<open>round_double_between\<close>). Every integer of magnitude at most \<open>2 ^ 53\<close>
  is a double (\<open>is_double_int\<close>). From the two, \<open>uniform_bounds\<close>: the sample lies
  between the bounds when the bounds and their difference are doubles.
\<close>

lemma round_half_even_of_int: "round_half_even (of_int m) = m"
  by (simp add: round_half_even_def)

lemma round_half_even_le: "z \<le> of_int n \<Longrightarrow> round_half_even z \<le> n"
proof -
  assume a: "z \<le> of_int n"
  have fl: "\<lfloor>z\<rfloor> \<le> n" using a by (simp add: floor_le_iff) 
  show ?thesis
  proof (cases "z - of_int \<lfloor>z\<rfloor> < 1/2")
    case True
    then show ?thesis using fl by (simp add: round_half_even_def Let_def)
  next
    case False
    then have "of_int \<lfloor>z\<rfloor> < z" by linarith
    then have "real_of_int \<lfloor>z\<rfloor> < of_int n" using a by linarith
    then have "\<lfloor>z\<rfloor> + 1 \<le> n" by linarith
    then show ?thesis using fl by (simp add: round_half_even_def Let_def)
  qed
qed

lemma round_half_even_ge: "of_int n \<le> z \<Longrightarrow> n \<le> round_half_even z"
proof -
  assume a: "of_int n \<le> z"
  then have "n \<le> \<lfloor>z\<rfloor>" by (simp add: le_floor_iff)
  then show ?thesis by (simp add: round_half_even_def Let_def)
qed

lemma double_ulp_pos: "0 < double_ulp x"
  by (simp add: double_ulp_def)

lemma double_exponent_mono:
  assumes "x \<noteq> 0" and "\<bar>x\<bar> \<le> \<bar>y\<bar>"
  shows "double_exponent x \<le> double_exponent y"
proof -
  have "log 2 \<bar>x\<bar> \<le> log 2 \<bar>y\<bar>" using assms by simp
  then have "\<lfloor>log 2 \<bar>x\<bar>\<rfloor> \<le> \<lfloor>log 2 \<bar>y\<bar>\<rfloor>" by (rule floor_mono)
  then show ?thesis by (simp add: double_exponent_def)
qed

lemma double_exponent_lower:
  assumes "x \<noteq> 0" and "- 1022 < double_exponent x"
  shows "2 powr real_of_int (double_exponent x) \<le> \<bar>x\<bar>"
proof -
  have e: "double_exponent x = \<lfloor>log 2 \<bar>x\<bar>\<rfloor>"
    using assms(2) by (simp add: double_exponent_def max_def split: if_splits)
  have "\<lfloor>log 2 \<bar>x\<bar>\<rfloor> = \<lfloor>log 2 \<bar>x\<bar>\<rfloor>" ..
  then show ?thesis
    unfolding e using assms(1) floor_log_eq_powr_iff [of "\<bar>x\<bar>" 2 "\<lfloor>log 2 \<bar>x\<bar>\<rfloor>"] by simp
qed

lemma double_exponent_upper:
  assumes "x \<noteq> 0"
  shows "\<bar>x\<bar> < 2 powr real_of_int (double_exponent x + 1)"
proof -
  have "\<bar>x\<bar> < 2 powr real_of_int (\<lfloor>log 2 \<bar>x\<bar>\<rfloor> + 1)"
    using assms floor_log_eq_powr_iff [of "\<bar>x\<bar>" 2 "\<lfloor>log 2 \<bar>x\<bar>\<rfloor>"] by simp
  also have "\<dots> \<le> 2 powr real_of_int (double_exponent x + 1)"
    by (simp add: double_exponent_def)
  finally show ?thesis .
qed


lemma round_half_even_minus: "round_half_even (- z) = - round_half_even z"
proof (cases "z = of_int \<lfloor>z\<rfloor>")
  case True
  then obtain m where "z = of_int m" ..
  then have "- z = of_int (- m)" by simp
  then show ?thesis
    using \<open>z = of_int m\<close> round_half_even_of_int by metis
next
  case False
  have c: "\<lfloor>- z\<rfloor> = - \<lfloor>z\<rfloor> - 1"
    using False by (simp add: floor_minus ceiling_altdef)
  have d: "- z - of_int \<lfloor>- z\<rfloor> = 1 - (z - of_int \<lfloor>z\<rfloor>)"
    unfolding c by simp
  show ?thesis
    unfolding round_half_even_def Let_def d
    unfolding c
    by auto
qed

lemma double_exponent_minus: "double_exponent (- x) = double_exponent x"
  by (simp add: double_exponent_def)

lemma double_ulp_minus: "double_ulp (- x) = double_ulp x"
  by (simp add: double_ulp_def double_exponent_minus)

lemma nearest_multiple_minus: "nearest_multiple (- x) = - nearest_multiple x"
  by (simp add: nearest_multiple_def double_ulp_minus round_half_even_minus)

lemma double_ulp_coarser:
  assumes "double_exponent x \<le> double_exponent y"
  shows "double_ulp y = real_of_int (2 ^ nat (double_exponent y - double_exponent x)) * double_ulp x"
proof -
  let ?k = "nat (double_exponent y - double_exponent x)"
  have "real_of_int (double_exponent y - 52)
          = real ?k + real_of_int (double_exponent x - 52)"
    using assms by simp
  then have "double_ulp y = 2 powr real ?k * double_ulp x"
    unfolding double_ulp_def by (simp only: powr_add)
  then show ?thesis by (simp add: powr_realpow)
qed

lemma nearest_multiple_le_grid:
  assumes "x \<le> y" and "y = real_of_int m * double_ulp y"
    and "double_exponent x \<le> double_exponent y"
  shows "nearest_multiple x \<le> y"
proof -
  define n where "n = m * 2 ^ nat (double_exponent y - double_exponent x)"
  have "y = real_of_int m * (real_of_int (2 ^ nat (double_exponent y - double_exponent x)) * double_ulp x)"
    using assms(2) double_ulp_coarser [OF assms(3)] by simp
  then have y: "y = real_of_int n * double_ulp x"
    by (simp add: n_def)
  have "x \<le> real_of_int n * double_ulp x"
    using assms(1) y by simp
  then have "x / double_ulp x \<le> real_of_int n"
    using double_ulp_pos [of x] by (simp add: pos_divide_le_eq)
  then have "round_half_even (x / double_ulp x) \<le> n"
    by (rule round_half_even_le)
  then have "real_of_int (round_half_even (x / double_ulp x)) \<le> real_of_int n"
    by (simp only: of_int_le_iff)
  then have "nearest_multiple x \<le> real_of_int n * double_ulp x"
    unfolding nearest_multiple_def using double_ulp_pos [of x]
    by (simp only: mult_le_cancel_right_pos)
  then show ?thesis using y by simp
qed

lemma nearest_multiple_nonpos:
  assumes "x \<le> 0"
  shows "nearest_multiple x \<le> 0"
proof -
  have "x / double_ulp x \<le> real_of_int 0"
    using assms double_ulp_pos [of x] by (simp add: field_simps)
  then have "round_half_even (x / double_ulp x) \<le> 0" by (rule round_half_even_le)
  then show ?thesis
    unfolding nearest_multiple_def using double_ulp_pos [of x]
    by (simp add: mult_le_0_iff)
qed

lemma nearest_multiple_binade:
  assumes "x < 0" and "- 1022 < double_exponent x"
  shows "nearest_multiple x \<le> - (2 powr real_of_int (double_exponent x))"
proof -
  have p: "2 powr real_of_int (double_exponent x) = real_of_int (2 ^ 52) * double_ulp x"
  proof -
    have "real_of_int (double_exponent x) = real (52::nat) + real_of_int (double_exponent x - 52)"
      by simp
    then have "2 powr real_of_int (double_exponent x) = 2 powr real (52::nat) * double_ulp x"
      unfolding double_ulp_def by (simp only: powr_add)
    then show ?thesis by (simp add: powr_realpow)
  qed
  have "2 powr real_of_int (double_exponent x) \<le> \<bar>x\<bar>"
    using assms by (intro double_exponent_lower) simp_all
  then have "x \<le> - (real_of_int (2 ^ 52) * double_ulp x)"
    using assms(1) p by simp
  then have "x / double_ulp x \<le> real_of_int (- (2 ^ 52))"
    using double_ulp_pos [of x] by (simp add: field_simps)
  then have "round_half_even (x / double_ulp x) \<le> - (2 ^ 52)"
    by (rule round_half_even_le)
  then have "real_of_int (round_half_even (x / double_ulp x)) \<le> real_of_int (- (2 ^ 52))"
    by (simp only: of_int_le_iff)
  then have "nearest_multiple x \<le> real_of_int (- (2 ^ 52)) * double_ulp x"
    unfolding nearest_multiple_def using double_ulp_pos [of x]
    by (simp only: mult_le_cancel_right_pos)
  then show ?thesis using p by simp
qed


lemma double_exponent_ge: "- 1022 \<le> double_exponent x"
  by (simp add: double_exponent_def)

lemma nearest_multiple_le:
  assumes "x \<le> y" and "x \<noteq> 0" and grid: "y = real_of_int m * double_ulp y"
  shows "nearest_multiple x \<le> y"
proof (cases "0 < x")
  case True
  then have "\<bar>x\<bar> \<le> \<bar>y\<bar>" using assms(1) by simp
  then have "double_exponent x \<le> double_exponent y"
    using assms(2) by (intro double_exponent_mono)
  then show ?thesis using assms(1) grid by (intro nearest_multiple_le_grid)
next
  case False
  then have neg: "x < 0" using assms(2) by simp
  show ?thesis
  proof (cases "0 \<le> y")
    case True
    have "nearest_multiple x \<le> 0" using neg by (intro nearest_multiple_nonpos) simp
    then show ?thesis using True by simp
  next
    case False
    then have yneg: "y < 0" by simp
    show ?thesis
    proof (cases "double_exponent x \<le> double_exponent y")
      case True
      then show ?thesis using assms(1) grid by (intro nearest_multiple_le_grid)
    next
      case False
      then have lt: "double_exponent y + 1 \<le> double_exponent x" by simp
      then have "- 1022 < double_exponent x"
        using double_exponent_ge [of y] by linarith
      then have a: "nearest_multiple x \<le> - (2 powr real_of_int (double_exponent x))"
        using neg by (intro nearest_multiple_binade)
      have "\<bar>y\<bar> < 2 powr real_of_int (double_exponent y + 1)"
        using yneg by (intro double_exponent_upper) simp
      also have "\<dots> \<le> 2 powr real_of_int (double_exponent x)"
        using lt by (intro powr_mono) simp_all
      finally have "- (2 powr real_of_int (double_exponent x)) < y"
        using yneg by simp
      then show ?thesis using a by simp
    qed
  qed
qed

lemma nearest_multiple_ge:
  assumes "y \<le> x" and "x \<noteq> 0" and grid: "y = real_of_int m * double_ulp y"
  shows "y \<le> nearest_multiple x"
proof -
  have g: "- y = real_of_int (- m) * double_ulp (- y)"
    using grid by (simp add: double_ulp_minus)
  have le: "- x \<le> - y" using assms(1) by simp
  have nz: "- x \<noteq> 0" using assms(2) by simp
  have "nearest_multiple (- x) \<le> - y"
    using le nz g by (rule nearest_multiple_le)
  then show ?thesis by (simp add: nearest_multiple_minus)
qed

lemma is_double_zero: "is_double 0"
  by (simp add: is_double_def round_double_def)

lemma is_double_grid:
  assumes "is_double y"
  shows "\<exists>m. y = real_of_int m * double_ulp y"
proof (cases "y = 0")
  case True
  then have "y = real_of_int 0 * double_ulp y" by simp
  then show ?thesis ..
next
  case False
  then have "nearest_multiple y = y"
    using assms by (simp add: is_double_def round_double_def split: if_splits)
  then have "y = real_of_int (round_half_even (y / double_ulp y)) * double_ulp y"
    by (simp add: nearest_multiple_def)
  then show ?thesis ..
qed

lemma double_limit_pos: "0 < double_limit"
  by (simp add: double_limit_def)

lemma is_double_less: "is_double y \<Longrightarrow> y < double_limit"
  using double_limit_pos
  by (cases "y = 0") (simp_all add: is_double_def round_double_def split: if_splits)

lemma is_double_greater: "is_double y \<Longrightarrow> - double_limit < y"
  using double_limit_pos
  by (cases "y = 0") (simp_all add: is_double_def round_double_def split: if_splits)

lemma round_double_between:
  assumes "lo \<le> x" and "x \<le> hi" and "is_double lo" and "is_double hi"
  shows "\<exists>v. round_double x = Finite v \<and> lo \<le> v \<and> v \<le> hi"
proof (cases "x = 0")
  case True
  then show ?thesis using assms(1,2) by (simp add: round_double_def)
next
  case False
  obtain m where m: "hi = real_of_int m * double_ulp hi"
    using is_double_grid [OF assms(4)] ..
  obtain n where n: "lo = real_of_int n * double_ulp lo"
    using is_double_grid [OF assms(3)] ..
  have u: "nearest_multiple x \<le> hi"
    using assms(2) False m by (rule nearest_multiple_le)
  have l: "lo \<le> nearest_multiple x"
    using assms(1) False n by (rule nearest_multiple_ge)
  have "nearest_multiple x < double_limit"
    using u is_double_less [OF assms(4)] by simp
  moreover have "- double_limit < nearest_multiple x"
    using l is_double_greater [OF assms(3)] by simp
  ultimately have "round_double x = Finite (nearest_multiple x)"
    using False by (simp add: round_double_def)
  then show ?thesis using u l by simp
qed


lemma double_exponent_eq:
  assumes "x \<noteq> 0" and "2 powr real_of_int e \<le> \<bar>x\<bar>"
    and "\<bar>x\<bar> < 2 powr real_of_int (e + 1)" and "- 1022 \<le> e"
  shows "double_exponent x = e"
proof -
  have "\<lfloor>log 2 \<bar>x\<bar>\<rfloor> = e"
    using assms(1,2,3) floor_log_eq_powr_iff [of "\<bar>x\<bar>" 2 e] by simp
  then show ?thesis using assms(4) by (simp add: double_exponent_def)
qed

lemma nearest_multiple_grid:
  assumes "x = real_of_int m * double_ulp x"
  shows "nearest_multiple x = x"
proof -
  have "x / double_ulp x = real_of_int m"
    using double_ulp_pos [of x] by (subst assms) simp
  then show ?thesis
    unfolding nearest_multiple_def using assms by (simp add: round_half_even_of_int)
qed

lemma is_double_grid_bounded:
  assumes "x = real_of_int m * double_ulp x" and "\<bar>x\<bar> < double_limit"
  shows "is_double x"
proof -
  have "nearest_multiple x = x" using assms(1) by (rule nearest_multiple_grid)
  moreover have "\<not> double_limit \<le> x" and "\<not> x \<le> - double_limit"
    using assms(2) by linarith+
  ultimately show ?thesis by (simp add: is_double_def round_double_def)
qed

lemma is_double_minus:
  assumes "is_double x"
  shows "is_double (- x)"
proof -
  obtain m where "x = real_of_int m * double_ulp x"
    using is_double_grid [OF assms] ..
  then have "- x = real_of_int (- m) * double_ulp (- x)"
    by (simp add: double_ulp_minus)
  moreover have "\<bar>- x\<bar> < double_limit"
    using is_double_less [OF assms] is_double_greater [OF assms] by linarith
  ultimately show ?thesis by (rule is_double_grid_bounded)
qed

lemma small_below_limit: "\<bar>x\<bar> \<le> 2 ^ 53 \<Longrightarrow> \<bar>x\<bar> < double_limit"
proof -
  assume "\<bar>x\<bar> \<le> 2 ^ 53"
  moreover have "(2::real) ^ 53 < 2 ^ 1024"
    by (rule power_strict_increasing) simp_all
  ultimately show ?thesis unfolding double_limit_def by linarith
qed

lemma double_exponent_small_int:
  assumes "n \<noteq> 0" and "\<bar>n\<bar> < 2 ^ 53"
  shows "double_exponent (real_of_int n) \<le> 52"
proof -
  have pos: "0 < \<bar>real_of_int n\<bar>" using assms(1) by simp
  have "\<bar>real_of_int n\<bar> < 2 powr 53"
  proof -
    have "real_of_int \<bar>n\<bar> < real_of_int (2 ^ 53)"
      using assms(2) by (simp only: of_int_less_iff)
    then show ?thesis by simp
  qed
  then have "log 2 \<bar>real_of_int n\<bar> < 53"
    using pos by (simp add: log_less_iff)
  then have "\<lfloor>log 2 \<bar>real_of_int n\<bar>\<rfloor> < 53"
    by (simp add: floor_less_iff)
  then show ?thesis by (simp add: double_exponent_def)
qed

lemma is_double_small_int:
  assumes "\<bar>n\<bar> < 2 ^ 53"
  shows "is_double (real_of_int n)"
proof (cases "n = 0")
  case True
  then show ?thesis by (simp add: is_double_zero)
next
  case False
  define k where "k = nat (52 - double_exponent (real_of_int n))"
  have e: "double_exponent (real_of_int n) - 52 = - int k"
    using double_exponent_small_int [OF False assms] by (simp add: k_def)
  have "double_ulp (real_of_int n) = 2 powr (- real k)"
    unfolding double_ulp_def e by simp
  then have u: "double_ulp (real_of_int n) = inverse (2 ^ k)"
    by (simp add: powr_minus powr_realpow)
  have grid: "real_of_int n = real_of_int (n * 2 ^ k) * double_ulp (real_of_int n)"
    unfolding u by simp
  have "real_of_int \<bar>n\<bar> < real_of_int (2 ^ 53)"
    using assms by (simp only: of_int_less_iff)
  then have "\<bar>real_of_int n\<bar> \<le> 2 ^ 53" by simp
  then have "\<bar>real_of_int n\<bar> < double_limit" by (rule small_below_limit)
  with grid show ?thesis by (rule is_double_grid_bounded)
qed

lemma is_double_two_53: "is_double 9007199254740992"
proof -
  have e: "double_exponent 9007199254740992 = 53"
    by (rule double_exponent_eq) simp_all
  have u: "double_ulp 9007199254740992 = 2"
    by (simp add: double_ulp_def e)
  have g: "(9007199254740992::real) = real_of_int 4503599627370496 * double_ulp 9007199254740992"
    unfolding u by simp
  have "\<bar>9007199254740992::real\<bar> < double_limit"
    by (rule small_below_limit) simp
  with g show ?thesis by (rule is_double_grid_bounded)
qed

lemma is_double_int:
  assumes "\<bar>n\<bar> \<le> 2 ^ 53"
  shows "is_double (real_of_int n)"
proof (cases "\<bar>n\<bar> < 2 ^ 53")
  case True
  then show ?thesis by (rule is_double_small_int)
next
  case False
  then have "n = 9007199254740992 \<or> n = - 9007199254740992"
    using assms by auto
  then show ?thesis
    using is_double_two_53 is_double_minus [OF is_double_two_53] by auto
qed


lemma round_double_at:
  assumes "x \<noteq> 0" and "2 powr real_of_int e \<le> \<bar>x\<bar>"
    and "\<bar>x\<bar> < 2 powr real_of_int (e + 1)" and "- 1022 \<le> e"
    and "\<bar>real_of_int (round_half_even (x / 2 powr real_of_int (e - 52))) * 2 powr real_of_int (e - 52)\<bar>
           < double_limit"
  shows "round_double x
           = Finite (real_of_int (round_half_even (x / 2 powr real_of_int (e - 52)))
                       * 2 powr real_of_int (e - 52))"
proof -
  have e: "double_exponent x = e"
    using assms(1-4) by (rule double_exponent_eq)
  have n: "nearest_multiple x
             = real_of_int (round_half_even (x / 2 powr real_of_int (e - 52)))
                 * 2 powr real_of_int (e - 52)"
    by (simp add: nearest_multiple_def double_ulp_def e)
  have "\<not> double_limit \<le> nearest_multiple x" and "\<not> nearest_multiple x \<le> - double_limit"
    using assms(5) unfolding n by linarith+
  then show ?thesis
    using assms(1) by (simp add: round_double_def n)
qed

lemma int_to_float_exact: "is_double (real_of_int n) \<Longrightarrow> int_to_float n = Inr (real_of_int n)"
  by (simp add: int_to_float_def is_double_def)

lemma uniform_bounds:
  assumes "0 \<le> r" and "r < 1" and "a < b"
    and "is_double (real_of_int a)" and "is_double (real_of_int b)"
    and "is_double (real_of_int (b - a))"
  shows "\<exists>w. uniform a b r = Inr (Finite w) \<and> real_of_int a \<le> w \<and> w \<le> real_of_int b"
proof -
  have d: "0 < real_of_int (b - a)" using assms(3) by simp
  have lo: "0 \<le> real_of_int (b - a) * r" using d assms(1) by simp
  have "real_of_int (b - a) * r \<le> real_of_int (b - a) * 1"
    using d assms(2) by (intro mult_left_mono) simp_all
  then have hi: "real_of_int (b - a) * r \<le> real_of_int (b - a)" by simp
  obtain p where p: "round_double (real_of_int (b - a) * r) = Finite p"
    and p0: "0 \<le> p" and p1: "p \<le> real_of_int (b - a)"
    using round_double_between [OF lo hi is_double_zero assms(6)] by blast
  have "real_of_int a \<le> real_of_int a + p" using p0 by simp
  moreover have "real_of_int a + p \<le> real_of_int b" using p1 by simp
  ultimately obtain w where w: "round_double (real_of_int a + p) = Finite w"
    and w0: "real_of_int a \<le> w" and w1: "w \<le> real_of_int b"
    using round_double_between [OF _ _ assms(4) assms(5)] by blast
  have "uniform a b r = Inr (Finite w)"
    by (simp add: uniform_def int_to_float_exact [OF assms(6)] int_to_float_exact [OF assms(4)]
          float_mul_def p w del: of_int_diff)
  then show ?thesis using w0 w1 by blast
qed

lemma round_2_53_plus_1: "round_double 9007199254740993 = Finite 9007199254740992"
proof -
  have "round_double 9007199254740993
          = Finite (real_of_int (round_half_even (9007199254740993 / 2 powr real_of_int (53 - 52)))
                      * 2 powr real_of_int (53 - 52))"
    by (rule round_double_at) (simp_all add: round_half_even_def double_limit_def)
  then show ?thesis by (simp add: round_half_even_def)
qed

lemma round_half: "round_double (1 / 2) = Finite (1 / 2)"
proof -
  have "round_double (1 / 2)
          = Finite (real_of_int (round_half_even ((1 / 2) / 2 powr real_of_int (- 1 - 52)))
                      * 2 powr real_of_int (- 1 - 52))"
    by (rule round_double_at) (simp_all add: round_half_even_def double_limit_def powr_neg_numeral)
  then show ?thesis by (simp add: round_half_even_def powr_neg_numeral)
qed

lemma round_2_53_plus_half:
  "round_double (9007199254740992 + 1 / 2) = Finite 9007199254740992"
proof -
  have "round_double (9007199254740992 + 1 / 2)
          = Finite (real_of_int (round_half_even ((9007199254740992 + 1 / 2) / 2 powr real_of_int (53 - 52)))
                      * 2 powr real_of_int (53 - 52))"
    by (rule round_double_at) (simp_all add: round_half_even_def double_limit_def)
  then show ?thesis by (simp add: round_half_even_def)
qed

lemma uniform_below_min:
  "uniform 9007199254740993 9007199254740994 (1 / 2) = Inr (Finite 9007199254740992)"
proof -
  have one: "int_to_float 1 = Inr 1"
    using int_to_float_exact [of 1] is_double_int [of 1] by simp
  have a: "int_to_float 9007199254740993 = Inr 9007199254740992"
    by (simp add: int_to_float_def round_2_53_plus_1)
  have d: "(9007199254740994::int) - 9007199254740993 = 1" by simp
  have p: "float_mul 1 (1 / 2) = Finite (1 / 2)"
    by (simp add: float_mul_def round_half)
  have s: "float_add 9007199254740992 (Finite (1 / 2)) = Finite 9007199254740992"
    by (simp only: float_add.simps round_2_53_plus_half)
  show ?thesis
    unfolding uniform_def d one a by (simp only: sum.case Let_def p s)
qed

section \<open>Properties of the publisher and the verifier\<close>

subsection \<open>What \<^verbatim>\<open>initialize_block\<close> stores\<close>

lemma settings_view_simps:
  "get_setting_int (settings_view mn mx ps) ''sawtooth.consensus.min_wait_time'' d
     = (case mn of Some i \<Rightarrow> i | None \<Rightarrow> d)"
  "get_setting_int (settings_view mn mx ps) ''sawtooth.consensus.max_wait_time'' d
     = (case mx of Some i \<Rightarrow> i | None \<Rightarrow> d)"
  "get_setting_list (settings_view mn mx ps) ''sawtooth.consensus.valid_block_publishers'' e
     = (case ps of Some l \<Rightarrow> Some l | None \<Rightarrow> e)"
  by (simp_all add: settings_view_def get_setting_int_def get_setting_list_def
        split: option.splits)

lemma initialize_example:
  "min_wait_time (fst (initialize_block (example_publisher mn mx ps) hdr now r))
     = (case mn of Some i \<Rightarrow> i | None \<Rightarrow> 0)"
  "max_wait_time (fst (initialize_block (example_publisher mn mx ps) hdr now r))
     = (case mx of Some i \<Rightarrow> i | None \<Rightarrow> 0)"
  "valid_block_publishers (fst (initialize_block (example_publisher mn mx ps) hdr now r)) = ps"
  "start_time (fst (initialize_block (example_publisher mn mx ps) hdr now r)) = now"
  by (simp_all add: initialize_block_def example_publisher_def new_block_publisher_def
        settings_view_simps Let_def split: option.splits sum.splits)

lemma initialize_header:
  "fst (snd (initialize_block self hdr now r)) = hdr\<lparr>consensus := ''Devmode''\<rparr>"
  by (simp add: initialize_block_def Let_def split: sum.splits)

lemma initialize_timer:
  "start_time (fst (initialize_block self hdr now r)) = now"
  "wait_time (fst (initialize_block self hdr now r)) =
     (case uniform (min_wait_time (fst (initialize_block self hdr now r)))
                   (max_wait_time (fst (initialize_block self hdr now r))) r of
        Inl e \<Rightarrow> wait_time self
      | Inr w \<Rightarrow> w)"
  by (simp_all add: initialize_block_def Let_def split: sum.splits)

lemma uniform_5_5: "uniform 5 5 r = Inr (Finite 5)"
proof -
  have z: "int_to_float 0 = Inr 0"
    using int_to_float_exact [of 0] is_double_zero by simp
  have f: "int_to_float 5 = Inr 5"
    using int_to_float_exact [of 5] is_double_int [of 5] by simp
  have p: "float_mul 0 r = Finite 0"
    by (simp add: float_mul_def round_double_def)
  have "is_double 5" using is_double_int [of 5] by simp
  then have a: "float_add 5 (Finite 0) = Finite 5"
    by (simp add: is_double_def)
  have d: "(5::int) - 5 = 0" by simp
  show ?thesis
    unfolding uniform_def d z f by (simp only: sum.case Let_def p a)
qed

lemma uniform_2_10: "uniform 2 10 (3 / 4) = Inr (Finite 8)"
proof -
  have e: "int_to_float 8 = Inr 8"
    using int_to_float_exact [of 8] is_double_int [of 8] by simp
  have t: "int_to_float 2 = Inr 2"
    using int_to_float_exact [of 2] is_double_int [of 2] by simp
  have "is_double 6" using is_double_int [of 6] by simp
  then have p: "float_mul 8 (3 / 4) = Finite 6"
    by (simp add: float_mul_def is_double_def)
  have "is_double 8" using is_double_int [of 8] by simp
  then have a: "float_add 2 (Finite 6) = Finite 8"
    by (simp add: is_double_def)
  have d: "(10::int) - 2 = 8" by simp
  show ?thesis
    unfolding uniform_def d e t by (simp only: sum.case Let_def p a)
qed

lemma initialize_wait_time_bounded:
  assumes "0 \<le> r" and "r < 1"
  shows "wait_time_bounded (fst (initialize_block self hdr now r))"
proof -
  let ?p = "fst (initialize_block self hdr now r)"
  have "\<exists>w. wait_time ?p = Finite w
              \<and> real_of_int (min_wait_time ?p) \<le> w \<and> w \<le> real_of_int (max_wait_time ?p)"
    if lt: "min_wait_time ?p < max_wait_time ?p" and ex: "exact_settings ?p"
  proof -
    obtain w where "uniform (min_wait_time ?p) (max_wait_time ?p) r = Inr (Finite w)"
      and "real_of_int (min_wait_time ?p) \<le> w" and "w \<le> real_of_int (max_wait_time ?p)"
      using uniform_bounds [OF assms lt] ex unfolding exact_settings_def by blast
    then show ?thesis by (simp add: initialize_timer(2))
  qed
  then show ?thesis unfolding wait_time_bounded_def by blast
qed

lemma step_wait_time_bounded:
  assumes "draw_ok c" and "wait_time_bounded self"
  shows "wait_time_bounded (step self c)"
proof (cases c)
  case (Initialize_block hdr now r)
  then show ?thesis using assms(1) by (simp add: initialize_wait_time_bounded)
next
  case (Check_publish_block hdr now)
  then show ?thesis using assms(2) by simp
next
  case (Finalize_block hdr)
  then show ?thesis using assms(2) by simp
next
  case (Chain_head_changed h)
  then show ?thesis using assms(2) by (simp add: wait_time_bounded_def exact_settings_def)
qed

lemma foldl_step_wait_time_bounded:
  "list_all draw_ok cs \<Longrightarrow> wait_time_bounded self \<Longrightarrow> wait_time_bounded (foldl step self cs)"
  by (induction cs arbitrary: self) (simp_all add: step_wait_time_bounded)

lemma new_wait_time_bounded: "wait_time_bounded (new_block_publisher cache factory)"
  by (simp add: wait_time_bounded_def new_block_publisher_def)

subsection \<open>The verifier\<close>

text \<open>
  Claim C3. \<^verbatim>\<open>verify_block\<close> returns true exactly when the header's consensus tag is the
  marker that \<^verbatim>\<open>initialize_block\<close> writes, which is \<^verbatim>\<open>b"Devmode"\<close>; it returns
  false for the empty tag; and a header that \<^verbatim>\<open>initialize_block\<close> has just stamped is
  accepted.
\<close>

theorem verify_block_marker:
  "verify_block w = (consensus (header w) = consensus (fst (snd (initialize_block self hdr now r))))
   \<and> consensus (fst (snd (initialize_block self hdr now r))) = ''Devmode''
   \<and> verify_block (w\<lparr>header := (header w)\<lparr>consensus := []\<rparr>\<rparr>) = False
   \<and> verify_block \<lparr>header = fst (snd (initialize_block self hdr now r))\<rparr> = True"
  by (simp add: verify_block_def initialize_header)

subsection \<open>Equal bounds\<close>

text \<open>
  Claim C4, as the spec states it, fails: with \<^verbatim>\<open>min_wait_time = 5\<close> and
  \<^verbatim>\<open>max_wait_time = 5\<close> the publisher initialised at time 0 still answers
  \<^verbatim>\<open>False\<close> at time 5 and at time 100, so it is not a 5-second delay.
\<close>

theorem equal_bounds_counterexample:
  "min_wait_time (fst (initialize_block (example_publisher (Some 5) (Some 5) None) example_header 0 (1/2))) = 5
   \<and> max_wait_time (fst (initialize_block (example_publisher (Some 5) (Some 5) None) example_header 0 (1/2))) = 5
   \<and> start_time (fst (initialize_block (example_publisher (Some 5) (Some 5) None) example_header 0 (1/2))) = 0
   \<and> check_publish_block
        (fst (initialize_block (example_publisher (Some 5) (Some 5) None) example_header 0 (1/2)))
        (fst (snd (initialize_block (example_publisher (Some 5) (Some 5) None) example_header 0 (1/2))))
        5 \<noteq> Some True
   \<and> check_publish_block
        (fst (initialize_block (example_publisher (Some 5) (Some 5) None) example_header 0 (1/2)))
        (fst (snd (initialize_block (example_publisher (Some 5) (Some 5) None) example_header 0 (1/2))))
        100 = Some False"
  by (simp add: initialize_example initialize_header check_publish_block_def
        not_valid_publisher_def)

text \<open>
  Claim C4, amended. When \<^verbatim>\<open>initialize_block\<close> has read \<^verbatim>\<open>min_wait_time = 5\<close> and
  \<^verbatim>\<open>max_wait_time = 5\<close>, the sampled wait time is 5, and \<^verbatim>\<open>check_publish_block\<close>
  returns \<^verbatim>\<open>False\<close> at every time, before and after \<open>start_time + 5\<close>: the test
  \<^verbatim>\<open>max_wait_time > min_wait_time\<close> is strict, so the last branch is taken.
\<close>

theorem equal_bounds_never_publish:
  assumes "min_wait_time (fst (initialize_block self hdr t0 r)) = 5"
    and "max_wait_time (fst (initialize_block self hdr t0 r)) = 5"
  shows "wait_time (fst (initialize_block self hdr t0 r)) = Finite 5
         \<and> check_publish_block (fst (initialize_block self hdr t0 r)) hdr' now = Some False"
  using assms by (simp add: initialize_timer(2) uniform_5_5 check_publish_block_def)

theorem equal_bounds_never_publish_witness:
  "min_wait_time (fst (initialize_block (example_publisher (Some 5) (Some 5) None) example_header 0 (1/2))) = 5
   \<and> max_wait_time (fst (initialize_block (example_publisher (Some 5) (Some 5) None) example_header 0 (1/2))) = 5
   \<and> wait_time (fst (initialize_block (example_publisher (Some 5) (Some 5) None) example_header 0 (1/2))) = Finite 5
   \<and> check_publish_block
        (fst (initialize_block (example_publisher (Some 5) (Some 5) None) example_header 0 (1/2)))
        example_header 7 = Some False"
proof -
  have a: "min_wait_time (fst (initialize_block (example_publisher (Some 5) (Some 5) None) example_header 0 (1/2))) = 5"
    by (simp add: initialize_example)
  have b: "max_wait_time (fst (initialize_block (example_publisher (Some 5) (Some 5) None) example_header 0 (1/2))) = 5"
    by (simp add: initialize_example)
  show ?thesis
    using a b equal_bounds_never_publish [OF a b, of example_header 7] by simp
qed

subsection \<open>The degenerate configuration\<close>

text \<open>
  Claim C5. When \<open>min_wait_time > 0\<close> and \<open>0 < max_wait_time \<le> min_wait_time\<close> and the
  signer is permitted by \<^verbatim>\<open>valid_block_publishers\<close>, \<^verbatim>\<open>check_publish_block\<close> returns
  \<^verbatim>\<open>False\<close> at every time: the node never claims.
\<close>

theorem degenerate_never_publish:
  assumes "min_wait_time self > 0"
    and "0 < max_wait_time self" and "max_wait_time self \<le> min_wait_time self"
    and "\<not> not_valid_publisher (valid_block_publishers self) (signer_pubkey hdr)"
  shows "check_publish_block self hdr now = Some False"
  using assms by (simp add: check_publish_block_def)

theorem degenerate_never_publish_witness:
  "min_wait_time (fst (initialize_block (example_publisher (Some 7) (Some 3) (Some [''bob''])) example_header 0 0)) > 0
   \<and> 0 < max_wait_time (fst (initialize_block (example_publisher (Some 7) (Some 3) (Some [''bob''])) example_header 0 0))
   \<and> max_wait_time (fst (initialize_block (example_publisher (Some 7) (Some 3) (Some [''bob''])) example_header 0 0))
       \<le> min_wait_time (fst (initialize_block (example_publisher (Some 7) (Some 3) (Some [''bob''])) example_header 0 0))
   \<and> \<not> not_valid_publisher
        (valid_block_publishers (fst (initialize_block (example_publisher (Some 7) (Some 3) (Some [''bob''])) example_header 0 0)))
        (signer_pubkey example_header)
   \<and> check_publish_block
        (fst (initialize_block (example_publisher (Some 7) (Some 3) (Some [''bob''])) example_header 0 0))
        example_header 1000 = Some False"
proof -
  let ?p = "fst (initialize_block (example_publisher (Some 7) (Some 3) (Some [''bob''])) example_header 0 0)"
  have a: "min_wait_time ?p > 0" by (simp add: initialize_example)
  have b: "0 < max_wait_time ?p" by (simp add: initialize_example)
  have c: "max_wait_time ?p \<le> min_wait_time ?p" by (simp add: initialize_example)
  have d: "\<not> not_valid_publisher (valid_block_publishers ?p) (signer_pubkey example_header)"
    by (simp add: initialize_example not_valid_publisher_def example_header_def)
  show ?thesis
    using a b c d degenerate_never_publish [OF a b c d, of 1000] by simp
qed

subsection \<open>The fixed delay\<close>

text \<open>
  Claim C6 at a failing input. With \<^verbatim>\<open>min_wait_time = 5\<close> and \<^verbatim>\<open>max_wait_time\<close>
  unset (so 0), a permitted signer, and the publisher initialised at time 0, the call at
  time 1 (before \<open>start_time + 5\<close>) reaches the end of the function body: the result is
  \<^verbatim>\<open>None\<close>, not the boolean \<^verbatim>\<open>False\<close>. At time 5 the result is \<^verbatim>\<open>True\<close>.
\<close>

theorem fixed_delay_before_deadline_is_None:
  "check_publish_block
     (fst (initialize_block (example_publisher (Some 5) None None) example_header 0 0))
     (fst (snd (initialize_block (example_publisher (Some 5) None None) example_header 0 0)))
     1 = None
   \<and> check_publish_block
     (fst (initialize_block (example_publisher (Some 5) None None) example_header 0 0))
     (fst (snd (initialize_block (example_publisher (Some 5) None None) example_header 0 0)))
     5 = Some True"
  by (simp add: initialize_example initialize_header check_publish_block_def
        not_valid_publisher_def)

subsection \<open>Authorisation\<close>

text \<open>
  Claim C7. When \<^verbatim>\<open>valid_block_publishers\<close> is a non-empty list that does not contain
  the header's \<^verbatim>\<open>signer_pubkey\<close>, \<^verbatim>\<open>check_publish_block\<close> returns \<^verbatim>\<open>False\<close>,
  whatever the wait times, the start time, the sampled wait time and the time of the call.
\<close>

theorem unauthorised_never_publish:
  assumes "valid_block_publishers self = Some pubs"
    and "pubs \<noteq> []" and "signer_pubkey hdr \<notin> set pubs"
  shows "check_publish_block self hdr now = Some False"
  using assms by (simp add: check_publish_block_def not_valid_publisher_def)

theorem unauthorised_never_publish_witness:
  "valid_block_publishers
     (fst (initialize_block (example_publisher (Some 0) None (Some [''alice'', ''carol''])) example_header 3 0))
     = Some [''alice'', ''carol'']
   \<and> [''alice'', ''carol''] \<noteq> []
   \<and> signer_pubkey example_header \<notin> set [''alice'', ''carol'']
   \<and> check_publish_block
        (fst (initialize_block (example_publisher (Some 0) None (Some [''alice'', ''carol''])) example_header 3 0))
        example_header 3 = Some False"
proof -
  let ?p = "fst (initialize_block (example_publisher (Some 0) None (Some [''alice'', ''carol''])) example_header 3 0)"
  have a: "valid_block_publishers ?p = Some [''alice'', ''carol'']"
    by (simp add: initialize_example)
  have b: "[''alice'', ''carol''] \<noteq> ([] :: str list)" by simp
  have c: "signer_pubkey example_header \<notin> set [''alice'', ''carol'']"
    by (simp add: example_header_def)
  show ?thesis
    using a b c unauthorised_never_publish [OF a b c, of 3] by simp
qed

subsection \<open>No delay\<close>

text \<open>
  Claim C8, as the spec states it, fails: with \<^verbatim>\<open>min_wait_time = 0\<close> and a non-empty list
  of valid publishers that does not contain the signer, the call made right after
  \<^verbatim>\<open>initialize_block\<close> returns \<^verbatim>\<open>False\<close>.
\<close>

theorem no_delay_counterexample:
  "min_wait_time
     (fst (initialize_block (example_publisher (Some 0) (Some 9) (Some [''alice''])) example_header 3 0)) = 0
   \<and> check_publish_block
        (fst (initialize_block (example_publisher (Some 0) (Some 9) (Some [''alice''])) example_header 3 0))
        (fst (snd (initialize_block (example_publisher (Some 0) (Some 9) (Some [''alice''])) example_header 3 0)))
        3 = Some False"
  by (simp add: initialize_example initialize_header check_publish_block_def
        not_valid_publisher_def example_header_def)

text \<open>
  Claim C8, amended. When \<^verbatim>\<open>initialize_block\<close> has read \<^verbatim>\<open>min_wait_time = 0\<close> and the
  header's signer is permitted (\<^verbatim>\<open>valid_block_publishers\<close> is unset, empty, or contains
  it), \<^verbatim>\<open>check_publish_block\<close> on the stamped header returns \<^verbatim>\<open>True\<close> at every time,
  also at the time of the initialisation itself, whatever \<^verbatim>\<open>max_wait_time\<close> is.
\<close>

theorem no_delay_publish_at_once:
  assumes "min_wait_time (fst (initialize_block self hdr t0 r)) = 0"
    and "\<not> not_valid_publisher
            (valid_block_publishers (fst (initialize_block self hdr t0 r))) (signer_pubkey hdr)"
  shows "check_publish_block (fst (initialize_block self hdr t0 r))
           (fst (snd (initialize_block self hdr t0 r))) now = Some True"
  using assms by (simp add: check_publish_block_def initialize_header)

theorem no_delay_publish_at_once_witness:
  "min_wait_time
     (fst (initialize_block (example_publisher (Some 0) (Some 9) (Some [''alice'', ''bob''])) example_header 3 0)) = 0
   \<and> \<not> not_valid_publisher
        (valid_block_publishers
           (fst (initialize_block (example_publisher (Some 0) (Some 9) (Some [''alice'', ''bob''])) example_header 3 0)))
        (signer_pubkey example_header)
   \<and> check_publish_block
        (fst (initialize_block (example_publisher (Some 0) (Some 9) (Some [''alice'', ''bob''])) example_header 3 0))
        (fst (snd (initialize_block (example_publisher (Some 0) (Some 9) (Some [''alice'', ''bob''])) example_header 3 0)))
        3 = Some True"
proof -
  let ?p = "fst (initialize_block (example_publisher (Some 0) (Some 9) (Some [''alice'', ''bob''])) example_header 3 0)"
  have a: "min_wait_time ?p = 0" by (simp add: initialize_example)
  have b: "\<not> not_valid_publisher (valid_block_publishers ?p) (signer_pubkey example_header)"
    by (simp add: initialize_example not_valid_publisher_def example_header_def)
  show ?thesis
    using a b no_delay_publish_at_once [OF a b, of 3] by simp
qed

subsection \<open>The sampled wait time\<close>

text \<open>
  Claim C9, as the spec states it, fails. With \<^verbatim>\<open>min_wait_time = 9007199254740993\<close>
  (\<open>2 ^ 53 + 1\<close>), \<^verbatim>\<open>max_wait_time = 9007199254740994\<close> and the draw \<open>1/2\<close>, the
  conversion of the minimum to a float rounds it down to \<open>2 ^ 53\<close>, the sum with
  \<open>1/2\<close> rounds to \<open>2 ^ 53\<close> again, and the sampled wait time \<open>9007199254740992\<close> is
  below the minimum.
\<close>

theorem wait_time_below_min_counterexample:
  "list_all draw_ok [Initialize_block example_header 0 (1/2)]
   \<and> min_wait_time (foldl step (example_publisher (Some 9007199254740993) (Some 9007199254740994) None)
        [Initialize_block example_header 0 (1/2)]) = 9007199254740993
   \<and> max_wait_time (foldl step (example_publisher (Some 9007199254740993) (Some 9007199254740994) None)
        [Initialize_block example_header 0 (1/2)]) = 9007199254740994
   \<and> wait_time (foldl step (example_publisher (Some 9007199254740993) (Some 9007199254740994) None)
        [Initialize_block example_header 0 (1/2)]) = Finite 9007199254740992
   \<and> (9007199254740992::real) < real_of_int 9007199254740993"
  by (simp add: initialize_example initialize_timer(2) uniform_below_min)

text \<open>
  Claim C9, amended. Whenever \<open>max_wait_time > min_wait_time\<close> and the two settings and
  their difference are integers that a double represents exactly (as every integer of
  magnitude at most \<open>2 ^ 53\<close> is: \<open>is_double_int\<close>), the wait time that
  \<^verbatim>\<open>initialize_block\<close> samples is a finite float between the two, for every value
  \<open>r\<close> in \<open>[0, 1)\<close> that the random source can draw; and the bound holds in every
  state the publisher reaches from its construction, through any sequence of calls of
  \<^verbatim>\<open>initialize_block\<close>, \<^verbatim>\<open>check_publish_block\<close> and \<^verbatim>\<open>finalize_block\<close> and any
  changes of the chain head in between.
\<close>

theorem wait_time_bounded_exact_settings:
  assumes "list_all draw_ok cs"
    and "self = foldl step (new_block_publisher cache factory) cs"
    and "max_wait_time self > min_wait_time self"
    and "is_double (real_of_int (min_wait_time self))"
    and "is_double (real_of_int (max_wait_time self))"
    and "is_double (real_of_int (max_wait_time self - min_wait_time self))"
  shows "\<exists>w. wait_time self = Finite w
              \<and> real_of_int (min_wait_time self) \<le> w
              \<and> w \<le> real_of_int (max_wait_time self)"
proof -
  have "wait_time_bounded self"
    unfolding assms(2)
    using assms(1) new_wait_time_bounded by (rule foldl_step_wait_time_bounded)
  moreover have "exact_settings self"
    using assms(4,5,6) unfolding exact_settings_def by blast
  ultimately show ?thesis
    using assms(3) unfolding wait_time_bounded_def by blast
qed

theorem wait_time_bounded_exact_settings_witness:
  "list_all draw_ok
     [Initialize_block example_header 10 (3/4), Check_publish_block example_header 11,
      Finalize_block example_header]
   \<and> min_wait_time (foldl step (example_publisher (Some 2) (Some 10) None)
        [Initialize_block example_header 10 (3/4), Check_publish_block example_header 11,
         Finalize_block example_header]) = 2
   \<and> max_wait_time (foldl step (example_publisher (Some 2) (Some 10) None)
        [Initialize_block example_header 10 (3/4), Check_publish_block example_header 11,
         Finalize_block example_header]) = 10
   \<and> is_double 2 \<and> is_double 10 \<and> is_double (10 - 2)
   \<and> wait_time (foldl step (example_publisher (Some 2) (Some 10) None)
        [Initialize_block example_header 10 (3/4), Check_publish_block example_header 11,
         Finalize_block example_header]) = Finite 8
   \<and> (2::real) \<le> 8 \<and> (8::real) \<le> 10"
proof -
  let ?cs = "[Initialize_block example_header 10 (3/4), Check_publish_block example_header 11,
              Finalize_block example_header]"
  let ?p = "foldl step (example_publisher (Some 2) (Some 10) None) ?cs"
  have a: "list_all draw_ok ?cs" by simp
  have b: "?p = foldl step
                  (new_block_publisher \<lparr>chain_head = None\<rparr> (\<lambda>root. settings_view (Some 2) (Some 10) None)) ?cs"
    by (simp add: example_publisher_def)
  have mn: "min_wait_time ?p = 2" by (simp add: initialize_example)
  have mx: "max_wait_time ?p = 10" by (simp add: initialize_example)
  have c: "max_wait_time ?p > min_wait_time ?p" unfolding mn mx by simp
  have d2: "is_double 2" using is_double_int [of 2] by simp
  have d10: "is_double 10" using is_double_int [of 10] by simp
  have d8: "is_double (10 - 2)" using is_double_int [of 8] by simp
  have e1: "is_double (real_of_int (min_wait_time ?p))" unfolding mn using d2 by simp
  have e2: "is_double (real_of_int (max_wait_time ?p))" unfolding mx using d10 by simp
  have e3: "is_double (real_of_int (max_wait_time ?p - min_wait_time ?p))"
    unfolding mn mx using d8 by simp
  have w: "wait_time ?p = Finite 8"
    by (simp add: initialize_example initialize_timer(2) uniform_2_10)
  have "\<exists>w. wait_time ?p = Finite w
             \<and> real_of_int (min_wait_time ?p) \<le> w \<and> w \<le> real_of_int (max_wait_time ?p)"
    using a b c e1 e2 e3 by (rule wait_time_bounded_exact_settings)
  then have "(2::real) \<le> 8 \<and> (8::real) \<le> 10"
    unfolding w mn mx by simp
  then show ?thesis
    using a mn mx d2 d10 d8 w by blast
qed

subsection \<open>The result is an optional boolean\<close>



section \<open>Properties of the fork resolver\<close>

subsection \<open>Hashing never fails\<close>

lemma hex_value_hex_char:
  "k < 16 \<Longrightarrow> hex_value (''0123456789abcdef'' ! k) = Some (int k)"
proof -
  assume "k < 16"
  then have "k = 0 \<or> k = 1 \<or> k = 2 \<or> k = 3 \<or> k = 4 \<or> k = 5 \<or> k = 6 \<or> k = 7
      \<or> k = 8 \<or> k = 9 \<or> k = 10 \<or> k = 11 \<or> k = 12 \<or> k = 13 \<or> k = 14 \<or> k = 15"
    by arith
  then have "k \<in> {0, 1, 2, 3, 4, 5, 6, 7, 8, 9, 10, 11, 12, 13, 14, 15}"
    by blast
  then show ?thesis
    by (elim insertE emptyE) (simp_all add: hex_value_def)
qed

lemma hex_value_hex_digit:
  fixes n :: u8
  assumes "unat n < 16"
  shows "hex_value (hex_digit n) = Some (int (unat n))"
  unfolding hex_digit_def using assms by (rule hex_value_hex_char)

lemma unat_high_nibble: "unat (drop_bit 4 (b :: u8)) < 16"
proof -
  have "unat b < 2 ^ 8" using unsigned_less [of b] by simp
  then have "unat b div 2 ^ 4 < 16" by simp
  moreover have "unat (drop_bit 4 b) = drop_bit 4 (unat b)"
    by (rule unat_drop_bit_eq)
  ultimately show ?thesis by (simp add: drop_bit_eq_div)
qed

lemma unat_low_nibble: "unat ((b :: u8) AND 15) < 16"
proof -
  have "b AND 15 \<le> 15" by (rule word_and_le1)
  then have "unat (b AND 15) \<le> 15" by (simp add: word_le_nat_alt)
  then show ?thesis by simp
qed

lemma int16_digits_hex_string:
  "\<exists>n. int16_digits acc (hex_string bs) = Inr n"
proof (induction bs arbitrary: acc)
  case Nil
  show ?case by (simp add: hex_string_def)
next
  case (Cons b bs)
  have split: "hex_string (b # bs) =
                 hex_digit (drop_bit 4 b) # hex_digit (b AND 15) # hex_string bs"
    by (simp add: hex_string_def)
  show ?case
    unfolding split
    using Cons.IH
    by (simp add: hex_value_hex_digit unat_high_nibble unat_low_nibble)
qed

lemma length_le_bytes32: "length (le_bytes32 w) = 4"
  by (simp add: le_bytes32_def)

lemma length_md5: "length (md5 msg) = 16"
  by (simp add: md5_def length_le_bytes32 split: prod.splits)

lemma md5_hexdigest_not_empty: "md5_hexdigest m \<noteq> []"
proof -
  obtain b bs where "md5 m = b # bs"
    using length_md5 [of m] by (cases "md5 m") simp_all
  then show ?thesis by (simp add: md5_hexdigest_def hex_string_def)
qed

lemma hash_signer_pubkey_total: "\<exists>n. hash_signer_pubkey signer sig = Inr n"
  using int16_digits_hex_string [of 0 "md5 (encode signer @ encode sig)"]
  by (simp add: hash_signer_pubkey_def python_int16_def
        md5_hexdigest_not_empty [unfolded md5_hexdigest_def]
        md5_hexdigest_def md5_new_def md5_update_def Let_def)

subsection \<open>The two branches of \<^verbatim>\<open>compare_forks\<close>\<close>

lemma compare_forks_equal_height:
  assumes "wrapper_block_num new = wrapper_block_num cur"
    and "hash_signer_pubkey (signer_pubkey (header cur)) (previous_block_id (header cur)) = Inr hc"
    and "hash_signer_pubkey (signer_pubkey (header new)) (previous_block_id (header new)) = Inr hn"
  shows "compare_forks cur new = Inr (hn < hc)"
  using assms by (simp add: compare_forks_def)

lemma compare_forks_fields:
  assumes "wrapper_block_num cur' = wrapper_block_num cur"
    and "signer_pubkey (header cur') = signer_pubkey (header cur)"
    and "previous_block_id (header cur') = previous_block_id (header cur)"
    and "wrapper_block_num new' = wrapper_block_num new"
    and "signer_pubkey (header new') = signer_pubkey (header new)"
    and "previous_block_id (header new') = previous_block_id (header new)"
  shows "compare_forks cur' new' = compare_forks cur new"
  unfolding compare_forks_def assms ..

lemma hash_bob: "hash_signer_pubkey ''bob'' ''00'' = Inr 77285140158811315842881869574942641128"
  by code_simp

lemma hash_alice: "hash_signer_pubkey ''alice'' ''00'' = Inr 109763886247956906038192524271850336741"
  by code_simp

lemma fork_head_simps:
  "wrapper_block_num (fork_head signer previous num tag) = num"
  "signer_pubkey (header (fork_head signer previous num tag)) = signer"
  "previous_block_id (header (fork_head signer previous num tag)) = previous"
  by (simp_all add: fork_head_def wrapper_block_num_def)

text \<open>
  Claim C1. For two fork heads of equal block number, the result of \<^verbatim>\<open>compare_forks\<close>
  is a function of the block numbers, signer keys and previous block ids of the two heads
  alone (any two calls on heads that agree on these give the same result); and when the
  two tie-break integers, \<^verbatim>\<open>int(md5(signer_pubkey + previous_block_id).hexdigest(), 16)\<close>,
  differ, both calls return a boolean and swapping the arguments negates it.
\<close>

theorem compare_forks_tie_break:
  assumes "wrapper_block_num cur = wrapper_block_num new"
  shows "(\<forall>cur' new'.
            wrapper_block_num cur' = wrapper_block_num cur
            \<and> signer_pubkey (header cur') = signer_pubkey (header cur)
            \<and> previous_block_id (header cur') = previous_block_id (header cur)
            \<and> wrapper_block_num new' = wrapper_block_num new
            \<and> signer_pubkey (header new') = signer_pubkey (header new)
            \<and> previous_block_id (header new') = previous_block_id (header new)
            \<longrightarrow> compare_forks cur' new' = compare_forks cur new)
         \<and> (hash_signer_pubkey (signer_pubkey (header cur)) (previous_block_id (header cur))
               \<noteq> hash_signer_pubkey (signer_pubkey (header new)) (previous_block_id (header new))
             \<longrightarrow> (\<exists>b. compare_forks cur new = Inr b \<and> compare_forks new cur = Inr (\<not> b)))"
proof (intro conjI allI impI)
  fix cur' new'
  assume "wrapper_block_num cur' = wrapper_block_num cur
            \<and> signer_pubkey (header cur') = signer_pubkey (header cur)
            \<and> previous_block_id (header cur') = previous_block_id (header cur)
            \<and> wrapper_block_num new' = wrapper_block_num new
            \<and> signer_pubkey (header new') = signer_pubkey (header new)
            \<and> previous_block_id (header new') = previous_block_id (header new)"
  then show "compare_forks cur' new' = compare_forks cur new"
    by (intro compare_forks_fields) simp_all
next
  assume ne: "hash_signer_pubkey (signer_pubkey (header cur)) (previous_block_id (header cur))
               \<noteq> hash_signer_pubkey (signer_pubkey (header new)) (previous_block_id (header new))"
  obtain hc where hc:
    "hash_signer_pubkey (signer_pubkey (header cur)) (previous_block_id (header cur)) = Inr hc"
    using hash_signer_pubkey_total by blast
  obtain hn where hn:
    "hash_signer_pubkey (signer_pubkey (header new)) (previous_block_id (header new)) = Inr hn"
    using hash_signer_pubkey_total by blast
  have diff: "hc \<noteq> hn" using ne hc hn by simp
  have "compare_forks cur new = Inr (hn < hc)"
    using assms hc hn by (simp add: compare_forks_equal_height)
  moreover have "compare_forks new cur = Inr (hc < hn)"
    using assms hc hn by (simp add: compare_forks_equal_height)
  moreover have "(hc < hn) = (\<not> hn < hc)" using diff by auto
  ultimately show "\<exists>b. compare_forks cur new = Inr b \<and> compare_forks new cur = Inr (\<not> b)"
    by simp
qed

theorem compare_forks_tie_break_witness:
  "wrapper_block_num (fork_head ''bob'' ''00'' 10 ''Devmode'')
     = wrapper_block_num (fork_head ''alice'' ''00'' 10 ''Devmode'')
   \<and> hash_signer_pubkey ''bob'' ''00'' \<noteq> hash_signer_pubkey ''alice'' ''00''
   \<and> compare_forks (fork_head ''bob'' ''00'' 10 ''Devmode'') (fork_head ''alice'' ''00'' 10 ''Devmode'')
       = Inr False
   \<and> compare_forks (fork_head ''alice'' ''00'' 10 ''Devmode'') (fork_head ''bob'' ''00'' 10 ''Devmode'')
       = Inr True
   \<and> compare_forks (fork_head ''bob'' ''00'' 10 []) (fork_head ''alice'' ''00'' 10 ''other'')
       = compare_forks (fork_head ''bob'' ''00'' 10 ''Devmode'') (fork_head ''alice'' ''00'' 10 ''Devmode'')"
proof -
  define cur where "cur = fork_head ''bob'' ''00'' 10 ''Devmode''"
  define new where "new = fork_head ''alice'' ''00'' 10 ''Devmode''"
  define cur' where "cur' = fork_head ''bob'' ''00'' 10 []"
  define new' where "new' = fork_head ''alice'' ''00'' 10 ''other''"
  have f: "wrapper_block_num cur = 10" "wrapper_block_num new = 10"
      "wrapper_block_num cur' = 10" "wrapper_block_num new' = 10"
      "signer_pubkey (header cur) = ''bob''" "signer_pubkey (header new) = ''alice''"
      "signer_pubkey (header cur') = ''bob''" "signer_pubkey (header new') = ''alice''"
      "previous_block_id (header cur) = ''00''" "previous_block_id (header new) = ''00''"
      "previous_block_id (header cur') = ''00''" "previous_block_id (header new') = ''00''"
    by (simp_all only: cur_def new_def cur'_def new'_def fork_head_simps)
  have eq: "wrapper_block_num cur = wrapper_block_num new"
    by (simp only: f)
  have ne: "hash_signer_pubkey ''bob'' ''00'' \<noteq> hash_signer_pubkey ''alice'' ''00''"
    unfolding hash_bob hash_alice by simp
  have cn: "compare_forks cur new = Inr False"
    unfolding compare_forks_def f hash_bob hash_alice by simp
  note t = compare_forks_tie_break [OF eq]
  from t have "wrapper_block_num cur' = wrapper_block_num cur
            \<and> signer_pubkey (header cur') = signer_pubkey (header cur)
            \<and> previous_block_id (header cur') = previous_block_id (header cur)
            \<and> wrapper_block_num new' = wrapper_block_num new
            \<and> signer_pubkey (header new') = signer_pubkey (header new)
            \<and> previous_block_id (header new') = previous_block_id (header new)
            \<longrightarrow> compare_forks cur' new' = compare_forks cur new"
    by blast
  then have same: "compare_forks cur' new' = compare_forks cur new"
    by (simp only: f simp_thms)
  from t have "hash_signer_pubkey (signer_pubkey (header cur)) (previous_block_id (header cur))
               \<noteq> hash_signer_pubkey (signer_pubkey (header new)) (previous_block_id (header new))
             \<longrightarrow> (\<exists>b. compare_forks cur new = Inr b \<and> compare_forks new cur = Inr (\<not> b))"
    by blast
  then have "\<exists>b. compare_forks cur new = Inr b \<and> compare_forks new cur = Inr (\<not> b)"
    using ne by (simp only: f simp_thms)
  then obtain b where b: "compare_forks cur new = Inr b" "compare_forks new cur = Inr (\<not> b)"
    by blast
  have "b = False" using b(1) cn by simp
  then have nc: "compare_forks new cur = Inr True"
    using b(2) by simp
  show ?thesis
    using eq ne cn nc same unfolding cur_def new_def cur'_def new'_def
    by (intro conjI)
qed

text \<open>
  Claim C2. For two fork heads whose block numbers differ, \<^verbatim>\<open>compare_forks\<close> returns
  true exactly when the new head's block number is the greater one, and swapping the two
  arguments gives the negated result.
\<close>

theorem compare_forks_longest_chain:
  assumes "wrapper_block_num cur \<noteq> wrapper_block_num new"
  shows "compare_forks cur new = Inr (wrapper_block_num new > wrapper_block_num cur)
         \<and> compare_forks new cur = Inr (\<not> wrapper_block_num new > wrapper_block_num cur)"
  using assms by (auto simp add: compare_forks_def)

theorem compare_forks_longest_chain_witness:
  "wrapper_block_num (fork_head ''bob'' ''00'' 10 ''Devmode'')
     \<noteq> wrapper_block_num (fork_head ''bob'' ''11'' 11 ''Devmode'')
   \<and> compare_forks (fork_head ''bob'' ''00'' 10 ''Devmode'') (fork_head ''bob'' ''11'' 11 ''Devmode'')
       = Inr True
   \<and> compare_forks (fork_head ''bob'' ''11'' 11 ''Devmode'') (fork_head ''bob'' ''00'' 10 ''Devmode'')
       = Inr False"
proof -
  have ne: "wrapper_block_num (fork_head ''bob'' ''00'' 10 ''Devmode'')
              \<noteq> wrapper_block_num (fork_head ''bob'' ''11'' 11 ''Devmode'')"
    by (simp add: fork_head_simps)
  show ?thesis
    using ne compare_forks_longest_chain [OF ne] by (simp add: fork_head_simps)
qed

end
